theory Spec2Isabelle
  imports Complex_Main "HOL-Library.Multiset"
begin

section \<open>Profit-curve analysis of the rider-churn notebook\<close>

text \<open>
  The notebook \<^verbatim>\<open>Uber_Rider_Churn_cost_benefit.ipynb\<close> defines four pieces of
  custom logic: \<^verbatim>\<open>standard_confusion_matrix\<close>, \<^verbatim>\<open>profit_curve\<close>,
  \<^verbatim>\<open>find_best_threshold\<close> and the final prediction with the chosen threshold.
  They are embedded here as HOL functions.

  Conventions of the embedding:
  \<^item> labels are Python/numpy integers (\<open>int\<close>); a numpy boolean counts as the label
    \<open>1\<close> (True) or \<open>0\<close> (False), as it does when the library compares and hashes labels;
  \<^item> probabilities, thresholds and profits are numpy floats, idealised as \<open>real\<close>;
  \<^item> confusion-matrix cells are counts (\<open>nat\<close>), a matrix is a list of rows;
  \<^item> every exception of the Python code is a value \<open>Inl e\<close> of \<open>py_error + 'a\<close>.
\<close>

subsection \<open>Errors\<close>

text \<open>
  \<open>InconsistentSamples\<close>, \<open>UnpackError\<close> and \<open>EmptySequence\<close> are all Python
  \<^verbatim>\<open>ValueError\<close>s, told apart by what raises them: the length check of
  \<^verbatim>\<open>sklearn.metrics.confusion_matrix\<close>, the destructuring assignment
  \<^verbatim>\<open>[[tn, fp], [fn, tp]] = ...\<close>, and \<^verbatim>\<open>np.argmax\<close> or \<^verbatim>\<open>np.max\<close> on an empty sequence.
  \<open>IndexError\<close> is a list index out of range.
  \<open>NanOrInf\<close> is not a Python exception: it marks a float division by zero, for which
  numpy stores \<^verbatim>\<open>nan\<close> or \<^verbatim>\<open>inf\<close>, values that the reals do not have.
\<close>

datatype py_error =
    InconsistentSamples
  | UnpackError
  | EmptySequence
  | IndexError
  | NanOrInf

subsection \<open>The process-wide cost-benefit constant\<close>

text \<open>\<^verbatim>\<open>costbenefit =  np.array([[10, -10], [-5, 0]])\<close>\<close>

definition costbenefit :: "int list list" where
  "costbenefit = [[10, -10], [-5, 0]]"

subsection \<open>The library confusion matrix\<close>

text \<open>
  \<^verbatim>\<open>sklearn.metrics.confusion_matrix(y_true, y_pred)\<close>, called without a
  \<^verbatim>\<open>labels\<close> argument: it rejects inputs of different lengths, takes as labels the
  sorted distinct values occurring in either input, and returns the square matrix whose
  entry in row \<open>i\<close>, column \<open>j\<close> counts the observations with true label \<open>labels[i]\<close>
  and predicted label \<open>labels[j]\<close>.
\<close>

definition unique_labels :: "int list \<Rightarrow> int list \<Rightarrow> int list" where
  "unique_labels y_true y_pred = sort (remdups (y_true @ y_pred))"

definition count_pairs :: "int list \<Rightarrow> int list \<Rightarrow> int \<Rightarrow> int \<Rightarrow> nat" where
  "count_pairs y_true y_pred a b =
     length (filter (\<lambda>(yt, yp). yt = a \<and> yp = b) (zip y_true y_pred))"

definition confusion_matrix :: "int list \<Rightarrow> int list \<Rightarrow> py_error + nat list list" where
  "confusion_matrix y_true y_pred =
     (if length y_true \<noteq> length y_pred then Inl InconsistentSamples
      else let labels = unique_labels y_true y_pred
           in Inr (map (\<lambda>a. map (\<lambda>b. count_pairs y_true y_pred a b) labels) labels))"

subsection \<open>\<^verbatim>\<open>standard_confusion_matrix\<close>\<close>

text \<open>
  \<^verbatim>\<open>
  [[tn, fp], [fn, tp]] = confusion_matrix(y_true, y_predict)
  return np.array([[tp, fp],[fn, tn]])
  \<close>
  The destructuring assignment needs exactly two rows of exactly two entries each and
  raises \<^verbatim>\<open>ValueError\<close> on any other shape.
\<close>

fun destructure :: "nat list list \<Rightarrow> py_error + (nat \<times> nat \<times> nat \<times> nat)" where
  "destructure [[tn, fp], [fn, tp]] = Inr (tn, fp, fn, tp)"
| "destructure _ = Inl UnpackError"

definition standard_confusion_matrix :: "int list \<Rightarrow> int list \<Rightarrow> py_error + nat list list" where
  "standard_confusion_matrix y_true y_predict =
     (case confusion_matrix y_true y_predict of
        Inl e \<Rightarrow> Inl e
      | Inr m \<Rightarrow>
          (case destructure m of
             Inl e \<Rightarrow> Inl e
           | Inr (tn, fp, fn, tp) \<Rightarrow> Inr [[tp, fp], [fn, tn]]))"

subsection \<open>\<^verbatim>\<open>profit_curve\<close>\<close>

text \<open>
  \<^verbatim>\<open>y_pred = probabilities > t\<close>: the predicted labels inside the sweep (strict
  comparison), as labels \<open>0\<close>/\<open>1\<close>.
\<close>

definition y_pred :: "real list \<Rightarrow> real \<Rightarrow> int list" where
  "y_pred probabilities t = map (\<lambda>p. if p > t then 1 else 0) probabilities"

text \<open>\<^verbatim>\<open>num = float(cm.sum().sum())\<close>\<close>

definition num_of :: "nat list list \<Rightarrow> real" where
  "num_of cm = real (sum_list (concat cm))"

text \<open>
  \<^verbatim>\<open>(cm/num*costbenefit).flatten().sum()\<close>: the product is element-wise and reads the
  global \<open>costbenefit\<close>.
\<close>

definition expected_profit :: "nat list list \<Rightarrow> real \<Rightarrow> real" where
  "expected_profit cm num =
     sum_list (map2 (\<lambda>c b. real c / num * real_of_int b) (concat cm) (concat costbenefit))"

text \<open>
  The loop \<^verbatim>\<open>for t in threshold: ...; profit.append(...)\<close>, with the list
  \<open>profit\<close> built so far as accumulator.
\<close>

fun profit_loop :: "real list \<Rightarrow> int list \<Rightarrow> real list \<Rightarrow> real list \<Rightarrow> py_error + real list" where
  "profit_loop probabilities y_true [] profit = Inr profit"
| "profit_loop probabilities y_true (t # ts) profit =
     (case standard_confusion_matrix y_true (y_pred probabilities t) of
        Inl e \<Rightarrow> Inl e
      | Inr cm \<Rightarrow>
          (let num = num_of cm
           in if num = 0 then Inl NanOrInf
              else profit_loop probabilities y_true ts (profit @ [expected_profit cm num])))"

text \<open>
  \<^verbatim>\<open>threshold = sorted(probabilities, reverse = True)\<close>. The parameter
  \<open>cost_benefit_matrix\<close> is not used by the body.
\<close>

definition profit_curve ::
  "int list list \<Rightarrow> real list \<Rightarrow> int list \<Rightarrow> py_error + (real list \<times> real list)" where
  "profit_curve cost_benefit_matrix probabilities y_true =
     (let threshold = rev (sort probabilities)
      in case profit_loop probabilities y_true threshold [] of
           Inl e \<Rightarrow> Inl e
         | Inr profit \<Rightarrow> Inr (threshold, profit))"

subsection \<open>\<^verbatim>\<open>find_best_threshold\<close>\<close>

text \<open>
  \<^verbatim>\<open>np.argmax\<close> scans the sequence once and keeps the index of the first entry that
  is strictly larger than everything before it; it raises on an empty sequence.
  \<^verbatim>\<open>np.max\<close> is the running maximum.
\<close>

fun argmax_loop :: "real list \<Rightarrow> nat \<Rightarrow> nat \<Rightarrow> real \<Rightarrow> nat" where
  "argmax_loop [] i best_i best = best_i"
| "argmax_loop (x # xs) i best_i best =
     (if x > best then argmax_loop xs (Suc i) i x else argmax_loop xs (Suc i) best_i best)"

definition np_argmax :: "real list \<Rightarrow> py_error + nat" where
  "np_argmax profits =
     (case profits of [] \<Rightarrow> Inl EmptySequence | x # xs \<Rightarrow> Inr (argmax_loop xs 1 0 x))"

definition np_max :: "real list \<Rightarrow> py_error + real" where
  "np_max profits =
     (case profits of [] \<Rightarrow> Inl EmptySequence | x # xs \<Rightarrow> Inr (fold max xs x))"

text \<open>
  \<^verbatim>\<open>
  max_index = np.argmax(profits)
  max_threshold = thresholds[max_index]
  max_profit = np.max(profits)
  return max_threshold, max_profit
  \<close>
\<close>

definition find_best_threshold :: "real list \<Rightarrow> real list \<Rightarrow> py_error + (real \<times> real)" where
  "find_best_threshold thresholds profits =
     (case np_argmax profits of
        Inl e \<Rightarrow> Inl e
      | Inr max_index \<Rightarrow>
          if max_index < length thresholds
          then (case np_max profits of
                  Inl e \<Rightarrow> Inl e
                | Inr max_profit \<Rightarrow> Inr (thresholds ! max_index, max_profit))
          else Inl IndexError)"

subsection \<open>Final prediction with the chosen threshold\<close>

text \<open>\<^verbatim>\<open>y_test_pred =  probabilities >= max_threshold\<close>\<close>

definition y_test_pred :: "real list \<Rightarrow> real \<Rightarrow> int list" where
  "y_test_pred probabilities max_threshold =
     map (\<lambda>p. if p \<ge> max_threshold then 1 else 0) probabilities"

section \<open>Auxiliary facts\<close>

subsection \<open>The confusion matrix\<close>

lemma length_unique_labels:
  "length (unique_labels y_true y_predict) = card (set y_true \<union> set y_predict)"
  by (simp add: unique_labels_def length_remdups_card_conv)

lemma set_unique_labels:
  "set (unique_labels y_true y_predict) = set y_true \<union> set y_predict"
  by (simp add: unique_labels_def)

lemma destructure_Inr_iff:
  "(\<exists>r. destructure m = Inr r) \<longleftrightarrow> (\<exists>a b c d. m = [[a, b], [c, d]])"
  by (cases m rule: destructure.cases) auto

lemma square_two_rows:
  "(\<exists>a b c d. map (\<lambda>x. map (f x) ls) ls = [[a, b], [c, d]]) \<longleftrightarrow> length ls = 2"
proof
  assume "\<exists>a b c d. map (\<lambda>x. map (f x) ls) ls = [[a, b], [c, d]]"
  then have "length (map (\<lambda>x. map (f x) ls) ls) = 2" by auto
  then show "length ls = 2" by simp
next
  assume "length ls = 2"
  then obtain p q where "ls = [p, q]"
    by (cases ls; cases "tl ls") auto
  then show "\<exists>a b c d. map (\<lambda>x. map (f x) ls) ls = [[a, b], [c, d]]" by simp
qed

lemma standard_confusion_matrix_Inr_iff:
  "(\<exists>cm. standard_confusion_matrix y_true y_predict = Inr cm) \<longleftrightarrow>
     length y_true = length y_predict \<and> card (set y_true \<union> set y_predict) = 2"
proof (cases "length y_true = length y_predict")
  case False
  then show ?thesis by (simp add: standard_confusion_matrix_def confusion_matrix_def)
next
  case True
  let ?ls = "unique_labels y_true y_predict"
  let ?m = "map (\<lambda>a. map (\<lambda>b. count_pairs y_true y_predict a b) ?ls) ?ls"
  have cm: "confusion_matrix y_true y_predict = Inr ?m"
    using True by (simp add: confusion_matrix_def Let_def)
  have "(\<exists>cm. standard_confusion_matrix y_true y_predict = Inr cm) \<longleftrightarrow> (\<exists>r. destructure ?m = Inr r)"
    by (cases "destructure ?m") (auto simp: standard_confusion_matrix_def cm)
  also have "\<dots> \<longleftrightarrow> length ?ls = 2"
    by (simp only: destructure_Inr_iff square_two_rows)
  finally show ?thesis using True by (simp add: length_unique_labels)
qed

lemma unique_labels_pair:
  assumes "a < b" "set y_true \<union> set y_predict = {a, b}"
  shows "unique_labels y_true y_predict = [a, b]"
proof -
  have "sorted_list_of_set (set (y_true @ y_predict)) = sort (remdups (y_true @ y_predict))"
    by (rule sorted_list_of_set_sort_remdups)
  moreover have "sorted_list_of_set {a, b} = [a, b]"
    using assms(1) by (simp add: insort_key.simps)
  ultimately show ?thesis using assms(2) by (simp add: unique_labels_def)
qed

lemma standard_confusion_matrix_pair:
  assumes "length y_true = length y_predict" "a < b" "set y_true \<union> set y_predict = {a, b}"
  shows "standard_confusion_matrix y_true y_predict =
           Inr [[count_pairs y_true y_predict b b, count_pairs y_true y_predict a b],
                [count_pairs y_true y_predict b a, count_pairs y_true y_predict a a]]"
  using assms(1) unique_labels_pair [OF assms(2,3)]
  by (simp add: standard_confusion_matrix_def confusion_matrix_def Let_def)

lemma count_four:
  assumes "a \<noteq> b" "\<forall>(x, y) \<in> set zs. x \<in> {a, b} \<and> y \<in> {a, b}"
  shows "length (filter (\<lambda>(x, y). x = b \<and> y = b) zs) + length (filter (\<lambda>(x, y). x = a \<and> y = b) zs)
       + length (filter (\<lambda>(x, y). x = b \<and> y = a) zs) + length (filter (\<lambda>(x, y). x = a \<and> y = a) zs)
       = length zs"
  using assms by (induction zs) auto

lemma card_two_pair:
  fixes S :: "int set"
  assumes "card S = 2"
  shows "\<exists>a b. a < b \<and> S = {a, b}"
proof -
  from assms obtain x y where xy: "x \<noteq> y" "S = {x, y}" by (auto simp: card_2_iff)
  show ?thesis
  proof (cases "x < y")
    case True with xy show ?thesis by blast
  next
    case False
    with xy have "y < x" "S = {y, x}" by auto
    then show ?thesis by blast
  qed
qed

lemma standard_confusion_matrix_cells:
  assumes "standard_confusion_matrix y_true y_predict = Inr cm"
  shows "\<exists>tp fp fn tn. cm = [[tp, fp], [fn, tn]] \<and> tp + fp + fn + tn = length y_true"
proof -
  from assms have len: "length y_true = length y_predict"
    and c2: "card (set y_true \<union> set y_predict) = 2"
    using standard_confusion_matrix_Inr_iff [of y_true y_predict] by auto
  from card_two_pair [OF c2] obtain a b where ab: "a < b" "set y_true \<union> set y_predict = {a, b}"
    by blast
  have mem: "\<forall>(x, y) \<in> set (zip y_true y_predict). x \<in> {a, b} \<and> y \<in> {a, b}"
    using ab(2) by (auto dest: set_zip_leftD set_zip_rightD)
  have "a \<noteq> b" using ab(1) by simp
  from count_four [OF this mem] have "count_pairs y_true y_predict b b + count_pairs y_true y_predict a b
      + count_pairs y_true y_predict b a + count_pairs y_true y_predict a a = length y_true"
    using len by (simp add: count_pairs_def)
  moreover have "cm = [[count_pairs y_true y_predict b b, count_pairs y_true y_predict a b],
                [count_pairs y_true y_predict b a, count_pairs y_true y_predict a a]]"
    using standard_confusion_matrix_pair [OF len ab] assms by simp
  ultimately show ?thesis by blast
qed

lemma standard_confusion_matrix_sum:
  assumes "standard_confusion_matrix y_true y_predict = Inr cm"
  shows "sum_list (concat cm) = length y_true"
  using standard_confusion_matrix_cells [OF assms] by auto

lemma count_pairs_card:
  assumes "length y_true = length y_predict"
  shows "count_pairs y_true y_predict a b =
           card {i. i < length y_true \<and> y_true ! i = a \<and> y_predict ! i = b}"
proof -
  have "{i. i < length (zip y_true y_predict) \<and>
            (case zip y_true y_predict ! i of (yt, yp) \<Rightarrow> yt = a \<and> yp = b)}
        = {i. i < length y_true \<and> y_true ! i = a \<and> y_predict ! i = b}"
    using assms by auto
  then show ?thesis by (simp add: count_pairs_def length_filter_conv_card)
qed

text \<open>
  When both classes occur, the result is the matrix of the four counts, each read off the
  indices: true positives, false positives, false negatives, true negatives.
\<close>

lemma standard_confusion_matrix_both_classes:
  assumes "length y_true = length y_predict" "set y_true \<union> set y_predict = {0, 1}"
  shows "standard_confusion_matrix y_true y_predict =
     Inr [[card {i. i < length y_true \<and> y_true ! i = 1 \<and> y_predict ! i = 1},
           card {i. i < length y_true \<and> y_true ! i = 0 \<and> y_predict ! i = 1}],
          [card {i. i < length y_true \<and> y_true ! i = 1 \<and> y_predict ! i = 0},
           card {i. i < length y_true \<and> y_true ! i = 0 \<and> y_predict ! i = 0}]]"
proof -
  have "(0::int) < 1" by simp
  from standard_confusion_matrix_pair [OF assms(1) this assms(2)] show ?thesis
    by (simp add: count_pairs_card [OF assms(1)])
qed

lemma unique_labels_single:
  assumes "set y_true \<union> set y_predict = {c}"
  shows "unique_labels y_true y_predict = [c]"
proof -
  have "sorted_list_of_set (set (y_true @ y_predict)) = sort (remdups (y_true @ y_predict))"
    by (rule sorted_list_of_set_sort_remdups)
  then show ?thesis using assms by (simp add: unique_labels_def)
qed

lemma count_pairs_single:
  assumes "length y_true = length y_predict" "set y_true \<union> set y_predict = {c}"
  shows "count_pairs y_true y_predict c c = length y_true"
proof -
  have "\<forall>z \<in> set (zip y_true y_predict). (case z of (yt, yp) \<Rightarrow> yt = c \<and> yp = c)"
    using assms(2) by (auto dest: set_zip_leftD set_zip_rightD)
  then have "filter (\<lambda>(yt, yp). yt = c \<and> yp = c) (zip y_true y_predict) = zip y_true y_predict"
    by (simp only: filter_True)
  then show ?thesis using assms(1) by (simp add: count_pairs_def)
qed

subsection \<open>The threshold sweep\<close>

lemma length_y_pred: "length (y_pred probabilities t) = length probabilities"
  by (simp add: y_pred_def)

lemma set_y_pred: "set (y_pred probabilities t) \<subseteq> {0, 1}"
  by (auto simp: y_pred_def)

lemma zero_in_y_pred: "t \<in> set probabilities \<Longrightarrow> 0 \<in> set (y_pred probabilities t)"
  by (force simp: y_pred_def)

lemma num_of_built:
  assumes "standard_confusion_matrix y_true y_predict = Inr cm"
  shows "num_of cm = real (length y_true)" and "num_of cm \<noteq> 0"
proof -
  show n: "num_of cm = real (length y_true)"
    using standard_confusion_matrix_sum [OF assms] by (simp add: num_of_def)
  from assms have "length y_true = length y_predict" "card (set y_true \<union> set y_predict) = 2"
    using standard_confusion_matrix_Inr_iff [of y_true y_predict] by auto
  then have "y_true \<noteq> []" by auto
  with n show "num_of cm \<noteq> 0" by simp
qed

lemma binary_built:
  assumes "length probabilities = length y_true" "set y_true \<subseteq> {0, 1}" "1 \<in> set y_true"
    "t \<in> set probabilities"
  shows "\<exists>cm. standard_confusion_matrix y_true (y_pred probabilities t) = Inr cm"
proof -
  have "set y_true \<union> set (y_pred probabilities t) = {0, 1}"
    using assms(2,3) set_y_pred [of probabilities t] zero_in_y_pred [OF assms(4)] by auto
  then have "card (set y_true \<union> set (y_pred probabilities t)) = 2" by simp
  with assms(1) show ?thesis
    by (simp add: standard_confusion_matrix_Inr_iff length_y_pred)
qed

lemma profit_loop_returns:
  assumes "\<forall>t\<in>set ts. \<exists>cm. standard_confusion_matrix y_true (y_pred probabilities t) = Inr cm"
  shows "\<exists>profit'. profit_loop probabilities y_true ts profit = Inr profit' \<and>
           length profit' = length profit + length ts"
  using assms
proof (induction ts arbitrary: profit)
  case Nil
  then show ?case by simp
next
  case (Cons t ts)
  from Cons.prems obtain cm where cm: "standard_confusion_matrix y_true (y_pred probabilities t) = Inr cm"
    by auto
  have nz: "num_of cm \<noteq> 0" by (rule num_of_built(2) [OF cm])
  from Cons.prems have "\<forall>t\<in>set ts. \<exists>cm. standard_confusion_matrix y_true (y_pred probabilities t) = Inr cm"
    by simp
  from Cons.IH [OF this, of "profit @ [expected_profit cm (num_of cm)]"]
  show ?case using cm nz by (simp add: Let_def)
qed

lemma profit_loop_no_nan:
  "profit_loop probabilities y_true ts profit \<noteq> Inl NanOrInf"
proof (induction ts arbitrary: profit)
  case Nil
  then show ?case by simp
next
  case (Cons t ts)
  show ?case
  proof (cases "standard_confusion_matrix y_true (y_pred probabilities t)")
    case (Inl e)
    have "e \<noteq> NanOrInf"
      using Inl
      by (auto simp: standard_confusion_matrix_def confusion_matrix_def Let_def
            split: sum.splits if_splits elim: destructure.elims)
    with Inl show ?thesis by simp
  next
    case (Inr cm)
    have "num_of cm \<noteq> 0" by (rule num_of_built(2) [OF Inr])
    with Inr Cons.IH show ?thesis by (simp add: Let_def)
  qed
qed

lemma thresholds_sorted_perm:
  "sorted_wrt (\<ge>) (rev (sort probabilities)) \<and> mset (rev (sort probabilities)) = mset probabilities"
  by (simp add: sorted_wrt_rev)

text \<open>
  When the labels are binary and at least one of them is \<open>1\<close>, the sweep builds a
  matrix at every threshold and \<open>profit_curve\<close> returns the descending thresholds
  with one profit per observation.
\<close>

lemma profit_curve_returns:
  assumes "length probabilities = length y_true" "set y_true \<subseteq> {0, 1}" "1 \<in> set y_true"
  shows "\<exists>profit. profit_curve cost_benefit_matrix probabilities y_true = Inr (rev (sort probabilities), profit) \<and>
           length profit = length probabilities"
proof -
  have "\<forall>t\<in>set (rev (sort probabilities)). \<exists>cm. standard_confusion_matrix y_true (y_pred probabilities t) = Inr cm"
    using binary_built [OF assms] by simp
  from profit_loop_returns [OF this, of "[]"] show ?thesis
    by (auto simp: profit_curve_def)
qed

subsection \<open>Maximum and first maximiser\<close>

lemma argmax_loop_inv:
  assumes "bi < length ys" "ys ! bi = b"
    "\<forall>j<length ys. ys ! j \<le> b" "\<forall>j<bi. ys ! j < b"
  shows "argmax_loop xs (length ys) bi b < length (ys @ xs) \<and>
         (\<forall>j<length (ys @ xs). (ys @ xs) ! j \<le> (ys @ xs) ! argmax_loop xs (length ys) bi b) \<and>
         (\<forall>j<argmax_loop xs (length ys) bi b. (ys @ xs) ! j < (ys @ xs) ! argmax_loop xs (length ys) bi b)"
  using assms
proof (induction xs arbitrary: ys bi b)
  case Nil
  then show ?case by simp
next
  case (Cons x xs)
  show ?case
  proof (cases "x > b")
    case True
    have a1: "length ys < length (ys @ [x])" by simp
    have a2: "(ys @ [x]) ! length ys = x" by simp
    have a3: "\<forall>j<length (ys @ [x]). (ys @ [x]) ! j \<le> x"
      using Cons.prems(3) True by (auto simp: nth_append less_Suc_eq intro: less_imp_le order_trans)
    have a4: "\<forall>j<length ys. (ys @ [x]) ! j < x"
      using Cons.prems(3) True by (auto simp: nth_append intro: le_less_trans)
    from Cons.IH [OF a1 a2 a3 a4] True show ?thesis by simp
  next
    case False
    have a1: "bi < length (ys @ [x])" using Cons.prems(1) by simp
    have a2: "(ys @ [x]) ! bi = b" using Cons.prems(1,2) by (simp add: nth_append)
    have a3: "\<forall>j<length (ys @ [x]). (ys @ [x]) ! j \<le> b"
      using Cons.prems(3) False by (auto simp: nth_append less_Suc_eq)
    have a4: "\<forall>j<bi. (ys @ [x]) ! j < b"
      using Cons.prems(1,4) by (auto simp: nth_append)
    from Cons.IH [OF a1 a2 a3 a4] False show ?thesis by simp
  qed
qed

lemma np_argmax_first_max:
  assumes "profits \<noteq> []"
  shows "\<exists>i. np_argmax profits = Inr i \<and> i < length profits \<and>
             (\<forall>j<length profits. profits ! j \<le> profits ! i) \<and>
             (\<forall>j<i. profits ! j < profits ! i)"
proof -
  from assms obtain x xs where p: "profits = x # xs" by (cases profits) auto
  have "argmax_loop xs (length [x]) 0 x < length ([x] @ xs) \<and>
         (\<forall>j<length ([x] @ xs). ([x] @ xs) ! j \<le> ([x] @ xs) ! argmax_loop xs (length [x]) 0 x) \<and>
         (\<forall>j<argmax_loop xs (length [x]) 0 x. ([x] @ xs) ! j < ([x] @ xs) ! argmax_loop xs (length [x]) 0 x)"
    by (rule argmax_loop_inv) auto
  then show ?thesis by (simp add: p np_argmax_def)
qed

lemma fold_max_ge: "(b::real) \<le> fold max xs b"
  by (induction xs arbitrary: b) (auto intro: order_trans [OF max.cobounded2])

lemma fold_max_upper: "x \<in> set xs \<Longrightarrow> (x::real) \<le> fold max xs b"
proof (induction xs arbitrary: b)
  case Nil then show ?case by simp
next
  case (Cons y ys)
  show ?case
  proof (cases "x = y")
    case True
    have "y \<le> max y b" by simp
    also have "\<dots> \<le> fold max ys (max y b)" by (rule fold_max_ge)
    finally show ?thesis using True by simp
  next
    case False
    with Cons show ?thesis by simp
  qed
qed

lemma fold_max_mem: "fold max xs (b::real) \<in> insert b (set xs)"
  by (induction xs arbitrary: b) (auto simp: max_def)

lemma np_max_is_max:
  assumes "profits \<noteq> []"
  shows "\<exists>m. np_max profits = Inr m \<and> m \<in> set profits \<and> (\<forall>x\<in>set profits. x \<le> m)"
proof -
  from assms obtain x xs where p: "profits = x # xs" by (cases profits) auto
  have "fold max xs x \<in> set profits" using fold_max_mem [of xs x] by (simp add: p)
  moreover have "\<forall>y\<in>set profits. y \<le> fold max xs x"
    using fold_max_ge [of x xs] fold_max_upper [of _ xs x] by (auto simp: p)
  ultimately show ?thesis by (simp add: p np_max_def)
qed

section \<open>Properties\<close>

text \<open>
  C1. Called with the cost-benefit matrix \<open>[[0,0],[0,0]]\<close>, the profit curve should be
  \<open>0\<close> at every threshold. The body of \<open>profit_curve\<close> multiplies by the global
  \<open>costbenefit\<close> instead of the argument: for \<open>P = [0.9, 0.6, 0.4, 0.1]\<close> and
  \<open>Y = [1, 1, 0, 0]\<close> the profits returned with the zero matrix as argument are
  \<open>-2.5, 1.25, 5, 2.5\<close>, none of them \<open>0\<close>.
\<close>

theorem zero_matrix_profit_not_zero:
  "profit_curve [[0, 0], [0, 0]] [0.9, 0.6, 0.4, 0.1] [1, 1, 0, 0]
     = Inr ([0.9, 0.6, 0.4, 0.1], [- 5 / 2, 5 / 4, 5, 5 / 2])"
  by (simp add: profit_curve_def standard_confusion_matrix_def confusion_matrix_def
      unique_labels_def count_pairs_def y_pred_def num_of_def expected_profit_def costbenefit_def)

text \<open>
  C2. For any two cost-benefit arguments and the same probabilities and labels,
  \<open>profit_curve\<close> returns the same thresholds and profits: the computation reads the
  global \<open>costbenefit\<close>, never its first parameter. The profit of a matrix is weighted
  by the entries \<open>10, -10, -5, 0\<close> of that global.
\<close>

theorem profit_curve_ignores_parameter:
  "profit_curve CB1 P Y = profit_curve CB2 P Y \<and>
   expected_profit [[tp, fp], [fn, tn]] num =
     real tp / num * 10 + real fp / num * (- 10) + real fn / num * (- 5) + real tn / num * 0"
  by (simp add: profit_curve_def expected_profit_def costbenefit_def)

text \<open>
  C3. For equal-length binary vectors \<open>standard_confusion_matrix\<close> should return
  \<open>[[TP, FP], [FN, TN]]\<close>. For \<open>y_true = [0, 0]\<close> and \<open>y_predict = [0, 0]\<close>, binary
  vectors in which only the class \<open>0\<close> occurs, the library matrix is the 1x1 matrix
  \<open>[[2]]\<close> and the destructuring raises, where the claim asks for \<open>[[0, 0], [0, 2]]\<close>.
  (With both classes present the result is as claimed:
  \<open>standard_confusion_matrix_both_classes\<close>.)
\<close>

theorem single_class_confusion_matrix_fails:
  "confusion_matrix [0, 0] [0, 0] = Inr [[2]] \<and>
   standard_confusion_matrix [0, 0] [0, 0] = Inl UnpackError"
  by (simp add: standard_confusion_matrix_def confusion_matrix_def unique_labels_def count_pairs_def)

text \<open>
  C4. The scenario \<open>Y = [1,1,0,0]\<close>, \<open>P = [0.9, 0.6, 0.4, 0.1]\<close>,
  \<open>CB = [[10,-10],[-5,0]]\<close>: at threshold \<open>0.4\<close> the predicted labels are
  \<open>[1,1,0,0]\<close>, the confusion matrix is \<open>TP = 2, FP = 0, FN = 0, TN = 2\<close>, the profit
  is \<open>5\<close>; and \<open>find_best_threshold\<close> on the whole curve returns the threshold
  \<open>0.4\<close> with the maximum profit \<open>5\<close>.
\<close>

theorem scenario_best_threshold:
  "y_pred [0.9, 0.6, 0.4, 0.1] 0.4 = [1, 1, 0, 0] \<and>
   standard_confusion_matrix [1, 1, 0, 0] (y_pred [0.9, 0.6, 0.4, 0.1] 0.4) = Inr [[2, 0], [0, 2]] \<and>
   expected_profit [[2, 0], [0, 2]] (num_of [[2, 0], [0, 2]]) = 5 \<and>
   profit_curve [[10, -10], [-5, 0]] [0.9, 0.6, 0.4, 0.1] [1, 1, 0, 0]
     = Inr ([0.9, 0.6, 0.4, 0.1], [- 5 / 2, 5 / 4, 5, 5 / 2]) \<and>
   find_best_threshold [0.9, 0.6, 0.4, 0.1] [- 5 / 2, 5 / 4, 5, 5 / 2] = Inr (0.4, 5)"
  by (simp add: profit_curve_def standard_confusion_matrix_def confusion_matrix_def
      unique_labels_def count_pairs_def y_pred_def num_of_def expected_profit_def costbenefit_def
      find_best_threshold_def np_argmax_def np_max_def)

text \<open>
  C5. For probabilities and binary labels of the same positive length \<open>N\<close>,
  \<open>profit_curve\<close> should return \<open>N\<close> thresholds, sorted in non-increasing order and
  a permutation of the probabilities, and \<open>N\<close> profits. For \<open>P = [0.5]\<close> and
  \<open>Y = [0]\<close> it returns nothing: at the threshold \<open>0.5\<close> every prediction is negative,
  every label is \<open>0\<close>, and \<open>standard_confusion_matrix\<close> raises.
  (When some label is \<open>1\<close> the result is as claimed: \<open>profit_curve_returns\<close> and
  \<open>thresholds_sorted_perm\<close>.)
\<close>

theorem profit_curve_all_negative_fails:
  "profit_curve [[10, -10], [-5, 0]] [0.5] [0] = Inl UnpackError"
  by (simp add: profit_curve_def standard_confusion_matrix_def confusion_matrix_def
      unique_labels_def count_pairs_def y_pred_def)

text \<open>
  C6. For thresholds and profits of the same non-zero length, \<open>find_best_threshold\<close>
  returns the threshold at an index \<open>i\<close> of maximum profit together with that maximum
  profit; \<open>i\<close> is the first index that attains the maximum, so that, the thresholds being
  in descending order, the threshold returned is the highest among the maximisers.
\<close>

theorem find_best_threshold_first_max:
  assumes "length thresholds = length profits" "profits \<noteq> []"
  shows "\<exists>i<length profits.
           find_best_threshold thresholds profits = Inr (thresholds ! i, profits ! i) \<and>
           (\<forall>j<length profits. profits ! j \<le> profits ! i) \<and>
           (\<forall>j<i. profits ! j < profits ! i) \<and>
           (sorted_wrt (\<ge>) thresholds \<longrightarrow>
              (\<forall>j<length profits. profits ! j = profits ! i \<longrightarrow> thresholds ! j \<le> thresholds ! i))"
proof -
  from np_argmax_first_max [OF assms(2)] obtain i where
    i: "np_argmax profits = Inr i" "i < length profits"
       "\<forall>j<length profits. profits ! j \<le> profits ! i" "\<forall>j<i. profits ! j < profits ! i"
    by blast
  from np_max_is_max [OF assms(2)] obtain m where
    m: "np_max profits = Inr m" "m \<in> set profits" "\<forall>x\<in>set profits. x \<le> m"
    by blast
  from m(2) obtain k where "k < length profits" "profits ! k = m"
    by (auto simp: in_set_conv_nth)
  with i(3) have "m \<le> profits ! i" by auto
  moreover have "profits ! i \<le> m" using m(3) i(2) by simp
  ultimately have mi: "m = profits ! i" by simp
  have res: "find_best_threshold thresholds profits = Inr (thresholds ! i, profits ! i)"
    using i(1,2) m(1) mi assms(1) by (simp add: find_best_threshold_def)
  have tie: "\<forall>j<length profits. profits ! j = profits ! i \<longrightarrow> thresholds ! j \<le> thresholds ! i"
    if s: "sorted_wrt (\<ge>) thresholds"
  proof (intro allI impI)
    fix j assume j: "j < length profits" "profits ! j = profits ! i"
    have "\<not> j < i" using i(4) j(2) by auto
    then consider "j = i" | "i < j" by linarith
    then show "thresholds ! j \<le> thresholds ! i"
    proof cases
      case 1 then show ?thesis by simp
    next
      case 2
      with sorted_wrt_nth_less [OF s, of i j] j(1) assms(1) show ?thesis by simp
    qed
  qed
  from res i(2,3,4) tie show ?thesis by blast
qed

theorem find_best_threshold_first_max_witness:
  "length [0.9, 0.6, 0.4, 0.1 :: real] = length [5 / 4, 5, 5, 5 / 2 :: real] \<and>
   [5 / 4, 5, 5, 5 / 2 :: real] \<noteq> [] \<and>
   sorted_wrt (\<ge>) [0.9, 0.6, 0.4, 0.1 :: real] \<and>
   find_best_threshold [0.9, 0.6, 0.4, 0.1] [5 / 4, 5, 5, 5 / 2] = Inr (0.6, 5) \<and>
   (\<exists>i<length [5 / 4, 5, 5, 5 / 2 :: real].
      find_best_threshold [0.9, 0.6, 0.4, 0.1] [5 / 4, 5, 5, 5 / 2]
        = Inr ([0.9, 0.6, 0.4, 0.1] ! i, [5 / 4, 5, 5, 5 / 2] ! i))"
proof -
  have h1: "length [0.9, 0.6, 0.4, 0.1 :: real] = length [5 / 4, 5, 5, 5 / 2 :: real]" by simp
  have h2: "[5 / 4, 5, 5, 5 / 2 :: real] \<noteq> []" by simp
  have h3: "sorted_wrt (\<ge>) [0.9, 0.6, 0.4, 0.1 :: real]" by simp
  have h4: "find_best_threshold [0.9, 0.6, 0.4, 0.1] [5 / 4, 5, 5, 5 / 2] = Inr (0.6, 5)"
    by (simp add: find_best_threshold_def np_argmax_def np_max_def)
  from find_best_threshold_first_max [OF h1 h2] have
    "\<exists>i<length [5 / 4, 5, 5, 5 / 2 :: real].
      find_best_threshold [0.9, 0.6, 0.4, 0.1] [5 / 4, 5, 5, 5 / 2]
        = Inr ([0.9, 0.6, 0.4, 0.1] ! i, [5 / 4, 5, 5, 5 / 2] ! i)"
    by blast
  with h1 h2 h3 h4 show ?thesis by blast
qed

text \<open>
  C7, as stated: on zero-length probability and label vectors \<open>profit_curve\<close> fails with
  an error. It does not: the sweep has no threshold and the result is the pair of empty
  sequences.
\<close>

theorem empty_input_returns_empty_curve:
  "profit_curve [[10, -10], [-5, 0]] [] [] = Inr ([], [])"
  by (simp add: profit_curve_def)

text \<open>
  C7, amended. On a zero-length probability vector \<open>profit_curve\<close> raises no error and
  returns two empty sequences, without building a matrix or dividing; and on no input does
  the normalisation divide by zero, so no NaN or Inf is ever computed.
\<close>

theorem profit_curve_empty_no_error_no_nan:
  "profit_curve cost_benefit_matrix [] y_true = Inr ([], []) \<and>
   profit_curve cost_benefit_matrix' probabilities y_true' \<noteq> Inl NanOrInf"
proof
  show "profit_curve cost_benefit_matrix [] y_true = Inr ([], [])"
    by (simp add: profit_curve_def)
  show "profit_curve cost_benefit_matrix' probabilities y_true' \<noteq> Inl NanOrInf"
    using profit_loop_no_nan [of probabilities y_true' "rev (sort probabilities)" "[]"]
    by (auto simp: profit_curve_def Let_def split: sum.splits)
qed

text \<open>
  C8. At every threshold \<open>t\<close> of the sweep, the confusion matrix built from the labels
  and the predictions \<open>P[i] > t\<close> has four cells that sum to the number \<open>N\<close> of labels,
  and the divisor \<open>num\<close> of the normalisation equals \<open>N\<close> (and is not zero). The
  matrix is built at every swept threshold when the labels are binary, of the length of
  the probabilities, and contain a \<open>1\<close>.
\<close>

theorem confusion_matrix_cells_sum_to_N:
  "(standard_confusion_matrix y_true (y_pred probabilities t) = Inr cm \<longrightarrow>
      (\<exists>tp fp fn tn. cm = [[tp, fp], [fn, tn]] \<and> tp + fp + fn + tn = length y_true) \<and>
      num_of cm = real (length y_true) \<and> num_of cm \<noteq> 0) \<and>
   (length probabilities = length y_true \<and> set y_true \<subseteq> {0, 1} \<and> 1 \<in> set y_true \<and>
    t \<in> set probabilities \<longrightarrow>
      (\<exists>cm'. standard_confusion_matrix y_true (y_pred probabilities t) = Inr cm'))"
proof (intro conjI impI)
  assume a: "standard_confusion_matrix y_true (y_pred probabilities t) = Inr cm"
  show "\<exists>tp fp fn tn. cm = [[tp, fp], [fn, tn]] \<and> tp + fp + fn + tn = length y_true"
    by (rule standard_confusion_matrix_cells [OF a])
  show "num_of cm = real (length y_true)" by (rule num_of_built(1) [OF a])
  show "num_of cm \<noteq> 0" by (rule num_of_built(2) [OF a])
next
  assume "length probabilities = length y_true \<and> set y_true \<subseteq> {0, 1} \<and> 1 \<in> set y_true \<and>
    t \<in> set probabilities"
  then show "\<exists>cm'. standard_confusion_matrix y_true (y_pred probabilities t) = Inr cm'"
    using binary_built by blast
qed

theorem confusion_matrix_cells_sum_to_N_witness:
  "standard_confusion_matrix [1, 1, 0, 0] (y_pred [0.9, 0.6, 0.4, 0.1] 0.1) = Inr [[2, 1], [0, 1]] \<and>
   length [0.9, 0.6, 0.4, 0.1 :: real] = length [1, 1, 0, 0 :: int] \<and>
   set [1, 1, 0, 0 :: int] \<subseteq> {0, 1} \<and> 1 \<in> set [1, 1, 0, 0 :: int] \<and>
   0.1 \<in> set [0.9, 0.6, 0.4, 0.1 :: real] \<and>
   (\<exists>tp fp fn tn. [[2, 1], [0, 1]] = [[tp, fp], [fn, tn]] \<and>
       tp + fp + fn + tn = length [1, 1, 0, 0 :: int]) \<and>
   num_of [[2, 1], [0, 1]] = 4"
proof -
  have h: "standard_confusion_matrix [1, 1, 0, 0] (y_pred [0.9, 0.6, 0.4, 0.1] 0.1) = Inr [[2, 1], [0, 1]]"
    by (simp add: standard_confusion_matrix_def confusion_matrix_def unique_labels_def
        count_pairs_def y_pred_def)
  have g: "length [0.9, 0.6, 0.4, 0.1 :: real] = length [1, 1, 0, 0 :: int] \<and>
   set [1, 1, 0, 0 :: int] \<subseteq> {0, 1} \<and> 1 \<in> set [1, 1, 0, 0 :: int] \<and>
   0.1 \<in> set [0.9, 0.6, 0.4, 0.1 :: real]" by simp
  from confusion_matrix_cells_sum_to_N [of "[1, 1, 0, 0]" "[0.9, 0.6, 0.4, 0.1]" "0.1" "[[2, 1], [0, 1]]"] h g
  show ?thesis by simp
qed

text \<open>
  C9. The rule of the sweep (positive iff \<open>P[i] > t\<close>) and the rule of the final
  prediction (positive iff \<open>P[i] >= t\<close>) classify observation \<open>i\<close> differently exactly
  when \<open>P[i] = t\<close>; so whenever the threshold is one of the probabilities, as the selected
  threshold always is, the two rules give different predictions.
\<close>

theorem strict_and_nonstrict_rules_differ_at_threshold:
  "(\<forall>i<length probabilities.
      (y_pred probabilities t ! i \<noteq> y_test_pred probabilities t ! i) \<longleftrightarrow> probabilities ! i = t) \<and>
   (t \<in> set probabilities \<longrightarrow> y_pred probabilities t \<noteq> y_test_pred probabilities t)"
proof
  show a: "\<forall>i<length probabilities.
      (y_pred probabilities t ! i \<noteq> y_test_pred probabilities t ! i) \<longleftrightarrow> probabilities ! i = t"
    by (auto simp: y_pred_def y_test_pred_def)
  show "t \<in> set probabilities \<longrightarrow> y_pred probabilities t \<noteq> y_test_pred probabilities t"
  proof
    assume "t \<in> set probabilities"
    then obtain i where "i < length probabilities" "probabilities ! i = t"
      by (auto simp: in_set_conv_nth)
    with a have "y_pred probabilities t ! i \<noteq> y_test_pred probabilities t ! i" by blast
    then show "y_pred probabilities t \<noteq> y_test_pred probabilities t" by auto
  qed
qed

theorem strict_and_nonstrict_rules_differ_at_threshold_witness:
  "find_best_threshold [0.9, 0.6, 0.4, 0.1] [- 5 / 2, 5 / 4, 5, 5 / 2] = Inr (0.4, 5) \<and>
   0.4 \<in> set [0.9, 0.6, 0.4, 0.1 :: real] \<and>
   y_pred [0.9, 0.6, 0.4, 0.1] 0.4 = [1, 1, 0, 0] \<and>
   y_test_pred [0.9, 0.6, 0.4, 0.1] 0.4 = [1, 1, 1, 0] \<and>
   y_pred [0.9, 0.6, 0.4, 0.1] 0.4 \<noteq> y_test_pred [0.9, 0.6, 0.4, 0.1] 0.4 \<and>
   [0.9, 0.6, 0.4, 0.1] ! 2 = (0.4 :: real) \<and>
   y_pred [0.9, 0.6, 0.4, 0.1] 0.4 ! 2 \<noteq> y_test_pred [0.9, 0.6, 0.4, 0.1] 0.4 ! 2 \<and>
   [0.9, 0.6, 0.4, 0.1] ! 1 \<noteq> (0.4 :: real) \<and>
   y_pred [0.9, 0.6, 0.4, 0.1] 0.4 ! 1 = y_test_pred [0.9, 0.6, 0.4, 0.1] 0.4 ! 1"
proof -
  have h1: "find_best_threshold [0.9, 0.6, 0.4, 0.1] [- 5 / 2, 5 / 4, 5, 5 / 2] = Inr (0.4, 5)"
    by (simp add: find_best_threshold_def np_argmax_def np_max_def)
  have h2: "0.4 \<in> set [0.9, 0.6, 0.4, 0.1 :: real]" by simp
  have h3: "y_pred [0.9, 0.6, 0.4, 0.1] 0.4 = [1, 1, 0, 0]" by (simp add: y_pred_def)
  have h4: "y_test_pred [0.9, 0.6, 0.4, 0.1] 0.4 = [1, 1, 1, 0]" by (simp add: y_test_pred_def)
  have h5: "[0.9, 0.6, 0.4, 0.1] ! 2 = (0.4 :: real)" by simp
  have h6: "[0.9, 0.6, 0.4, 0.1] ! 1 \<noteq> (0.4 :: real)" by simp
  have l2: "(2::nat) < length [0.9, 0.6, 0.4, 0.1 :: real]" by simp
  have l1: "(1::nat) < length [0.9, 0.6, 0.4, 0.1 :: real]" by simp
  note t = strict_and_nonstrict_rules_differ_at_threshold [of "[0.9, 0.6, 0.4, 0.1]" "0.4"]
  from t h2 have d: "y_pred [0.9, 0.6, 0.4, 0.1] 0.4 \<noteq> y_test_pred [0.9, 0.6, 0.4, 0.1] 0.4"
    by blast
  from t l2 h5 have d2: "y_pred [0.9, 0.6, 0.4, 0.1] 0.4 ! 2 \<noteq> y_test_pred [0.9, 0.6, 0.4, 0.1] 0.4 ! 2"
    by blast
  from t l1 h6 have d1: "y_pred [0.9, 0.6, 0.4, 0.1] 0.4 ! 1 = y_test_pred [0.9, 0.6, 0.4, 0.1] 0.4 ! 1"
    by blast
  from h1 h2 h3 h4 h5 h6 d d1 d2 show ?thesis by blast
qed

text \<open>
  C10. \<open>standard_confusion_matrix\<close> returns a matrix exactly when the two vectors have
  the same length and exactly two distinct values occur in them. When a single value
  occurs in both (at the largest threshold every prediction is negative; the labels may
  all be negative too), the library matrix is the 1x1 matrix \<open>[[N]]\<close> and the
  destructuring raises its own \<^verbatim>\<open>ValueError\<close>.
\<close>

theorem standard_confusion_matrix_needs_two_labels:
  "((\<exists>cm. standard_confusion_matrix y_true y_predict = Inr cm) \<longleftrightarrow>
      length y_true = length y_predict \<and> card (set y_true \<union> set y_predict) = 2) \<and>
   (length y_true = length y_predict \<and> set y_true \<union> set y_predict = {c} \<longrightarrow>
      confusion_matrix y_true y_predict = Inr [[length y_true]] \<and>
      standard_confusion_matrix y_true y_predict = Inl UnpackError)"
proof (intro conjI impI)
  show "(\<exists>cm. standard_confusion_matrix y_true y_predict = Inr cm) \<longleftrightarrow>
      length y_true = length y_predict \<and> card (set y_true \<union> set y_predict) = 2"
    by (rule standard_confusion_matrix_Inr_iff)
next
  assume a: "length y_true = length y_predict \<and> set y_true \<union> set y_predict = {c}"
  then show m: "confusion_matrix y_true y_predict = Inr [[length y_true]]"
    by (simp add: confusion_matrix_def Let_def unique_labels_single count_pairs_single)
  then show "standard_confusion_matrix y_true y_predict = Inl UnpackError"
    by (simp add: standard_confusion_matrix_def)
qed

theorem standard_confusion_matrix_needs_two_labels_witness:
  "length [0, 0 :: int] = length (y_pred [0.7, 0.2] 0.7) \<and>
   set [0, 0 :: int] \<union> set (y_pred [0.7, 0.2] 0.7) = {0} \<and>
   card (set [0, 0 :: int] \<union> set (y_pred [0.7, 0.2] 0.7)) \<noteq> 2 \<and>
   confusion_matrix [0, 0] (y_pred [0.7, 0.2] 0.7) = Inr [[2]] \<and>
   standard_confusion_matrix [0, 0] (y_pred [0.7, 0.2] 0.7) = Inl UnpackError \<and>
   \<not> (\<exists>cm. standard_confusion_matrix [0, 0] (y_pred [0.7, 0.2] 0.7) = Inr cm)"
proof -
  have h1: "length [0, 0 :: int] = length (y_pred [0.7, 0.2] 0.7)" by (simp add: y_pred_def)
  have h2: "set [0, 0 :: int] \<union> set (y_pred [0.7, 0.2] 0.7) = {0}" by (simp add: y_pred_def)
  have h3: "card (set [0, 0 :: int] \<union> set (y_pred [0.7, 0.2] 0.7)) \<noteq> 2" unfolding h2 by simp
  from standard_confusion_matrix_needs_two_labels [of "[0, 0]" "y_pred [0.7, 0.2] 0.7" 0] h1 h2 h3
  show ?thesis by simp
qed

end
